theory Spec2Isabelle
  imports Complex_Main "HOL-Library.Word"
begin

section \<open>Energy-aware drone: the numerical model of EAD_EnergyAwareDrone.cxx\<close>

subsection \<open>The type double\<close>

text \<open>
  Every quantity of the program is a C++ \<open>double\<close> (IEEE 754 binary64). A value of
  the model is a finite number, an infinity or the not-a-number \<open>NaN\<close>. The range of
  the type is modelled: the exact result of an operation overflows to an infinity when
  its magnitude reaches \<open>2^1024 - 2^970\<close> (the midpoint above the largest double) and
  underflows to zero when its magnitude is at most \<open>2^-1075\<close> (half the smallest
  subnormal). Between the two bounds the exact real result is kept: rounding to 53 bits
  is not modelled, and neither is the sign of zero (a zero divisor counts as \<open>+0\<close>).
  Properties that hold of exact real arithmetic but are decided by rounding, such as an
  exact equality between two differently bracketed sums or an inequality between computed
  square roots, are therefore outside this model and are not stated in it.
\<close>

datatype double = Fin real | PInf | NInf | NaN

definition overflow_bound :: real where
  "overflow_bound = 2 ^ 1024 - 2 ^ 970"

definition underflow_bound :: real where
  "underflow_bound = 1 / 2 ^ 1075"

definition to_double :: "real \<Rightarrow> double" where
  "to_double r =
     (if overflow_bound \<le> r then PInf
      else if r \<le> - overflow_bound then NInf
      else if \<bar>r\<bar> \<le> underflow_bound then Fin 0
      else Fin r)"

text \<open>The infinity with the sign of \<open>s\<close>; \<open>0 * inf\<close> and \<open>0 / 0\<close> are NaN.\<close>

definition signed_inf :: "real \<Rightarrow> double" where
  "signed_inf s = (if s = 0 then NaN else if 0 < s then PInf else NInf)"

instantiation double :: "{plus, minus, times, uminus, inverse}"
begin

fun plus_double :: "double \<Rightarrow> double \<Rightarrow> double" where
  "plus_double (Fin u) (Fin v) = to_double (u + v)"
| "plus_double (Fin u) PInf = PInf"
| "plus_double (Fin u) NInf = NInf"
| "plus_double PInf (Fin v) = PInf"
| "plus_double NInf (Fin v) = NInf"
| "plus_double PInf PInf = PInf"
| "plus_double NInf NInf = NInf"
| "plus_double _ _ = NaN"

fun minus_double :: "double \<Rightarrow> double \<Rightarrow> double" where
  "minus_double (Fin u) (Fin v) = to_double (u - v)"
| "minus_double (Fin u) PInf = NInf"
| "minus_double (Fin u) NInf = PInf"
| "minus_double PInf (Fin v) = PInf"
| "minus_double NInf (Fin v) = NInf"
| "minus_double PInf NInf = PInf"
| "minus_double NInf PInf = NInf"
| "minus_double _ _ = NaN"

fun times_double :: "double \<Rightarrow> double \<Rightarrow> double" where
  "times_double (Fin u) (Fin v) = to_double (u * v)"
| "times_double (Fin u) PInf = signed_inf u"
| "times_double (Fin u) NInf = signed_inf (- u)"
| "times_double PInf (Fin v) = signed_inf v"
| "times_double NInf (Fin v) = signed_inf (- v)"
| "times_double PInf PInf = PInf"
| "times_double NInf NInf = PInf"
| "times_double PInf NInf = NInf"
| "times_double NInf PInf = NInf"
| "times_double _ _ = NaN"

fun uminus_double :: "double \<Rightarrow> double" where
  "uminus_double (Fin u) = Fin (- u)"
| "uminus_double PInf = NInf"
| "uminus_double NInf = PInf"
| "uminus_double NaN = NaN"

fun divide_double :: "double \<Rightarrow> double \<Rightarrow> double" where
  "divide_double (Fin u) (Fin v) = (if v = 0 then signed_inf u else to_double (u / v))"
| "divide_double (Fin u) PInf = Fin 0"
| "divide_double (Fin u) NInf = Fin 0"
| "divide_double PInf (Fin v) = (if 0 \<le> v then PInf else NInf)"
| "divide_double NInf (Fin v) = (if 0 \<le> v then NInf else PInf)"
| "divide_double _ _ = NaN"

fun inverse_double :: "double \<Rightarrow> double" where
  "inverse_double (Fin v) = (if v = 0 then PInf else to_double (1 / v))"
| "inverse_double PInf = Fin 0"
| "inverse_double NInf = Fin 0"
| "inverse_double NaN = NaN"

instance ..

end

text \<open>\<open>std::sqrt\<close>: a domain error (negative argument) gives NaN, no exception.\<close>

fun std_sqrt :: "double \<Rightarrow> double" where
  "std_sqrt (Fin u) = (if u < 0 then NaN else to_double (sqrt u))"
| "std_sqrt PInf = PInf"
| "std_sqrt NInf = NaN"
| "std_sqrt NaN = NaN"

text \<open>
  \<open>std::pow\<close> with a non-negative integer exponent (the program only calls it with
  the literal 2). \<open>pow(x, 0)\<close> is 1 for every \<open>x\<close>, NaN included.
\<close>

fun std_pow :: "double \<Rightarrow> nat \<Rightarrow> double" where
  "std_pow (Fin u) n = to_double (u ^ n)"
| "std_pow PInf n = (if n = 0 then Fin 1 else PInf)"
| "std_pow NInf n = (if n = 0 then Fin 1 else if even n then PInf else NInf)"
| "std_pow NaN n = (if n = 0 then Fin 1 else NaN)"

text \<open>The comparison \<open>!=\<close> of doubles: true whenever an operand is NaN.\<close>

fun dneq :: "double \<Rightarrow> double \<Rightarrow> bool" where
  "dneq NaN _ = True"
| "dneq _ NaN = True"
| "dneq d e = (d \<noteq> e)"

fun is_finite :: "double \<Rightarrow> bool" where
  "is_finite (Fin u) = True"
| "is_finite _ = False"

subsection \<open>Waypoints and the distance between two of them\<close>

record Waypoint =
  x :: double
  y :: double
  z :: double

definition distance :: "Waypoint \<Rightarrow> Waypoint \<Rightarrow> double" where
  "distance wp1 wp2 =
     std_sqrt (std_pow (x wp2 - x wp1) 2 +
               std_pow (y wp2 - y wp1) 2 +
               std_pow (z wp2 - z wp1) 2)"

definition finite_waypoint :: "Waypoint \<Rightarrow> bool" where
  "finite_waypoint wp = (is_finite (x wp) \<and> is_finite (y wp) \<and> is_finite (z wp))"

subsection \<open>The energy model\<close>

definition energyConsumption :: "double \<Rightarrow> double \<Rightarrow> double \<Rightarrow> double \<Rightarrow> double \<Rightarrow> double" where
  "energyConsumption velocity altitude a b c = a * std_pow velocity 2 + b * altitude + c"

subsection \<open>The optimal speed and altitude\<close>

definition findOptimalSpeedAndAltitude :: "double \<Rightarrow> double \<Rightarrow> double \<times> double" where
  "findOptimalSpeedAndAltitude a b =
     (let optimalVelocity = Fin 0;
          optimalAltitude = Fin 100;
          optimalVelocity = (if dneq a (Fin 0) then std_sqrt (b / (Fin 2 * a)) else optimalVelocity)
      in (optimalVelocity, optimalAltitude))"

subsection \<open>The orchestrator: the body of main\<close>

text \<open>
  \<open>operator[]\<close> of \<open>std::vector\<close> does not check its index; a read outside the
  vector is undefined behaviour, which the model reports as the error \<open>OutOfBounds\<close>.
\<close>

datatype error = OutOfBounds

type_synonym size_t = "64 word"

definition vector_size :: "'a list \<Rightarrow> size_t" where
  "vector_size v = word_of_nat (length v)"

definition vector_at :: "'a list \<Rightarrow> size_t \<Rightarrow> error + 'a" where
  "vector_at v i = (if unat i < length v then Inr (v ! unat i) else Inl OutOfBounds)"

text \<open>
  The loop \<open>for (size_t i = 0; i < waypoints.size() - 1; ++i)\<close>, from the index \<open>i\<close>
  and the running sum on. The bound \<open>waypoints.size() - 1\<close> is computed in \<open>size_t\<close>
  and wraps around for the empty vector.
\<close>

function distance_loop :: "Waypoint list \<Rightarrow> size_t \<Rightarrow> double \<Rightarrow> error + double" where
  "distance_loop waypoints i totalDistance =
     (if i < vector_size waypoints - 1 then
        (case vector_at waypoints i of
           Inl e \<Rightarrow> Inl e
         | Inr wp1 \<Rightarrow>
            (case vector_at waypoints (i + 1) of
               Inl e \<Rightarrow> Inl e
             | Inr wp2 \<Rightarrow> distance_loop waypoints (i + 1) (totalDistance + distance wp1 wp2)))
      else Inr totalDistance)"
  by pat_completeness auto

termination
proof (relation "measure (\<lambda>(waypoints, i, totalDistance). length waypoints - unat i)")
  show "wf (measure (\<lambda>(waypoints, i, totalDistance). length waypoints - unat i))"
    by simp
next
  fix waypoints :: "Waypoint list" and i :: size_t and totalDistance :: double
    and wp1 wp2 :: Waypoint
  assume lt: "i < vector_size waypoints - 1"
    and a1: "vector_at waypoints i = Inr wp1"
    and a2: "vector_at waypoints (i + 1) = Inr wp2"
  have "unat i < unat (vector_size waypoints - 1)"
    using lt by (simp add: word_less_nat_alt)
  moreover have "unat (vector_size waypoints - 1) < 2 ^ 64"
    using unsigned_less [of "vector_size waypoints - 1"] by simp
  ultimately have "unat i + 1 < 2 ^ 64" by simp
  then have "unat (i + 1) = Suc (unat i)" by (simp add: unat_word_ariths)
  moreover have "unat i < length waypoints"
    using a1 by (simp add: vector_at_def split: if_splits)
  ultimately show "((waypoints, i + 1, totalDistance + distance wp1 wp2),
                    (waypoints, i, totalDistance))
        \<in> measure (\<lambda>(waypoints, i, totalDistance). length waypoints - unat i)"
    by simp
qed

declare distance_loop.simps [simp del]

record Results =
  total_distance :: double
  optimal_velocity :: double
  optimal_altitude :: double
  total_energy :: double

text \<open>
  The body of \<open>main\<close> with the coefficients and the waypoint vector as parameters;
  the four printed quantities are the result.
\<close>

definition main_body :: "double \<Rightarrow> double \<Rightarrow> double \<Rightarrow> Waypoint list \<Rightarrow> error + Results" where
  "main_body a b c waypoints =
     (case distance_loop waypoints 0 (Fin 0) of
        Inl e \<Rightarrow> Inl e
      | Inr totalDistance \<Rightarrow>
          (let (optimalVelocity, optimalAltitude) = findOptimalSpeedAndAltitude a b;
               totalEnergy = energyConsumption optimalVelocity optimalAltitude a b c * totalDistance
           in Inr \<lparr>total_distance = totalDistance, optimal_velocity = optimalVelocity,
                   optimal_altitude = optimalAltitude, total_energy = totalEnergy\<rparr>))"

definition reference_waypoints :: "Waypoint list" where
  "reference_waypoints =
     [\<lparr>x = Fin 0, y = Fin 0, z = Fin 100\<rparr>,
      \<lparr>x = Fin 100, y = Fin 100, z = Fin 150\<rparr>,
      \<lparr>x = Fin 200, y = Fin 50, z = Fin 120\<rparr>,
      \<lparr>x = Fin 300, y = Fin 200, z = Fin 150\<rparr>]"

definition main :: "error + Results" where
  "main = main_body (Fin (1 / 10)) (Fin (5 / 100)) (Fin 10) reference_waypoints"

subsection \<open>Notions used to state the properties\<close>

text \<open>
  The summation as the specification words it: the sum of the distances between
  \<open>waypoints[k]\<close> and \<open>waypoints[k+1]\<close> for the consecutive pairs from index \<open>i\<close> on,
  added to the running sum \<open>t\<close> in the order of the path.
\<close>

definition pairwise_sum :: "Waypoint list \<Rightarrow> nat \<Rightarrow> double \<Rightarrow> double" where
  "pairwise_sum waypoints i t =
     foldl (\<lambda>s k. s + distance (waypoints ! k) (waypoints ! Suc k)) t [i..<length waypoints - 1]"

text \<open>A double is approximately \<open>r\<close>: finite and at most \<open>tol\<close> away from it.\<close>

definition within_tolerance :: "real \<Rightarrow> double \<Rightarrow> real \<Rightarrow> bool" where
  "within_tolerance tol d r = (case d of Fin u \<Rightarrow> \<bar>u - r\<bar> \<le> tol | _ \<Rightarrow> False)"

text \<open>The exact value \<open>r\<close> neither overflows nor underflows to zero.\<close>

definition in_range :: "real \<Rightarrow> bool" where
  "in_range r = (underflow_bound < \<bar>r\<bar> \<and> \<bar>r\<bar> < overflow_bound)"

text \<open>The exact value \<open>r\<close> lies in the range of the normal doubles: its magnitude
  is at least \<open>2^-1022\<close> and it does not overflow.\<close>

definition normal_range :: "real \<Rightarrow> bool" where
  "normal_range r = (1 / 2 ^ 1022 \<le> \<bar>r\<bar> \<and> \<bar>r\<bar> < overflow_bound)"

text \<open>The values that a square, a sum of squares or the root of one can take: zero, a
  positive number that did not underflow, or \<open>+inf\<close>.\<close>

definition nonneg_result :: "double \<Rightarrow> bool" where
  "nonneg_result d = (case d of Fin s \<Rightarrow> s = 0 \<or> underflow_bound < s | PInf \<Rightarrow> True | _ \<Rightarrow> False)"

text \<open>The length of the reference path: its three segments measure
  \<open>sqrt 22500 = 150\<close>, \<open>sqrt 13400\<close> and \<open>sqrt 33400\<close>.\<close>

definition reference_length :: real where
  "reference_length = 150 + sqrt 13400 + sqrt 33400"

section \<open>Properties\<close>

subsection \<open>The range of the doubles\<close>

lemma underflow_bound_pos: "0 < underflow_bound"
  by (simp add: underflow_bound_def)

lemma underflow_bound_small: "underflow_bound < 1 / 1000"
  unfolding underflow_bound_def by simp

lemma overflow_bound_large: "10 ^ 7 < overflow_bound"
  unfolding overflow_bound_def by simp

lemma overflow_bound_one: "1 < overflow_bound"
  using overflow_bound_large by simp

lemma overflow_bound_pos: "0 < overflow_bound"
  using overflow_bound_large by simp

lemma to_double_in_range: "in_range r \<Longrightarrow> to_double r = Fin r"
  using overflow_bound_pos by (auto simp: in_range_def to_double_def)

lemma to_double_zero: "to_double 0 = Fin 0"
  using overflow_bound_pos underflow_bound_pos by (simp add: to_double_def)

lemma moderate_in_range:
  assumes "1 / 1000 \<le> \<bar>r\<bar>" and "\<bar>r\<bar> \<le> 10 ^ 7"
  shows "in_range r"
  using assms underflow_bound_small overflow_bound_large unfolding in_range_def by linarith

lemma to_double_uminus: "to_double (- r) = - to_double r"
  using overflow_bound_pos underflow_bound_pos by (auto simp: to_double_def)

subsection \<open>Symmetry of the square\<close>

lemma std_pow2_to_double_uminus: "std_pow (to_double (- r)) 2 = std_pow (to_double r) 2"
  using overflow_bound_pos underflow_bound_pos by (auto simp: to_double_def)

lemma std_pow2_uminus: "std_pow (- d) 2 = std_pow d 2"
  by (cases d) simp_all

lemma std_pow2_diff_commute: "std_pow (d - e) 2 = std_pow (e - d) 2"
proof (cases d; cases e)
  fix u v assume "d = Fin u" "e = Fin v"
  then show ?thesis using std_pow2_to_double_uminus [of "u - v"] by simp
qed simp_all

text \<open>
  C7. The distance is symmetric: for all waypoints p and q, \<open>distance p q\<close> and
  \<open>distance q p\<close> are the same value.
\<close>

theorem distance_symmetric: "distance p q = distance q p"
  unfolding distance_def
  by (simp only: std_pow2_diff_commute [of "x q" "x p"] std_pow2_diff_commute [of "y q" "y p"]
      std_pow2_diff_commute [of "z q" "z p"])

text \<open>
  C10. The energy model is even in the velocity: for every velocity v (NaN included),
  altitude h and coefficients a, b, c, the energy at \<open>- v\<close> is the energy at v.
\<close>

theorem energy_even_in_velocity:
  "energyConsumption (- v) h a b c = energyConsumption v h a b c"
  by (simp add: energyConsumption_def std_pow2_uminus)

text \<open>
  C4. For every coefficient b (NaN included), findOptimalSpeedAndAltitude called with
  a = 0 returns the velocity 0 and the altitude 100: the test \<open>a != 0\<close> fails and the
  quotient by \<open>2 * a\<close> is not evaluated. The result is a finite number, which the
  square root of that quotient would not be.
\<close>

theorem optimizer_zero_a:
  "findOptimalSpeedAndAltitude (Fin 0) b = (Fin 0, Fin 100)
   \<and> is_finite (fst (findOptimalSpeedAndAltitude (Fin 0) b))
   \<and> \<not> is_finite (std_sqrt (b / (Fin 2 * Fin 0)))"
proof -
  have guard: "\<not> dneq (Fin 0) (Fin 0)" by simp
  have "findOptimalSpeedAndAltitude (Fin 0) b = (Fin 0, Fin 100)"
    unfolding findOptimalSpeedAndAltitude_def Let_def by (simp only: guard if_False)
  moreover have "\<not> is_finite (std_sqrt (b / (Fin 2 * Fin 0)))"
    by (cases b) (simp_all add: to_double_zero signed_inf_def)
  ultimately show ?thesis by simp
qed

subsection \<open>The summation loop\<close>



lemma unat_index:
  assumes "i < 2 ^ 64"
  shows "unat (word_of_nat i :: size_t) = i"
  using assms by (simp add: unat_of_nat)

lemma loop_bound:
  assumes "waypoints \<noteq> []"
  shows "vector_size waypoints - 1 = word_of_nat (length waypoints - 1)"
proof -
  have "1 \<le> length waypoints" using assms by (cases waypoints) simp_all
  then show ?thesis by (simp add: vector_size_def of_nat_diff)
qed

lemma loop_test:
  assumes ne: "waypoints \<noteq> []" and len: "length waypoints < 2 ^ 64"
    and i: "i \<le> length waypoints - 1"
  shows "(word_of_nat i :: size_t) < vector_size waypoints - 1 \<longleftrightarrow> i < length waypoints - 1"
proof -
  have "i < 2 ^ 64" "length waypoints - 1 < 2 ^ 64" using len i by simp_all
  then show ?thesis
    by (simp add: loop_bound [OF ne] word_less_nat_alt unat_index)
qed

lemma vector_at_index:
  assumes "i < length v" and "length v < 2 ^ 64"
  shows "vector_at v (word_of_nat i) = Inr (v ! i)"
proof -
  have "i < 2 ^ 64" using assms by simp
  then show ?thesis using assms(1) by (simp add: vector_at_def unat_index)
qed

text \<open>
  On a non-empty vector the loop reads inside the vector only and returns the sum of
  the consecutive distances: induction on the number of pairs still to visit.
\<close>

lemma distance_loop_sum:
  assumes ne: "waypoints \<noteq> []" and len: "length waypoints < 2 ^ 64"
    and i: "i \<le> length waypoints - 1"
  shows "distance_loop waypoints (word_of_nat i) t = Inr (pairwise_sum waypoints i t)"
  using i
proof (induction "length waypoints - 1 - i" arbitrary: i t)
  case 0
  then have eq: "i = length waypoints - 1" by simp
  have "\<not> (word_of_nat i :: size_t) < vector_size waypoints - 1"
    using loop_test [OF ne len "0.prems"] eq by simp
  then have "distance_loop waypoints (word_of_nat i) t = Inr t"
    by (subst distance_loop.simps) simp
  then show ?case by (simp add: pairwise_sum_def eq)
next
  case (Suc n)
  then have lt: "i < length waypoints - 1" by simp
  then have i1: "i < length waypoints" and i2: "Suc i < length waypoints" by simp_all
  have test: "(word_of_nat i :: size_t) < vector_size waypoints - 1"
    using loop_test [OF ne len Suc.prems] lt by simp
  have at1: "vector_at waypoints (word_of_nat i) = Inr (waypoints ! i)"
    using i1 len by (rule vector_at_index)
  have suc: "(word_of_nat i :: size_t) + 1 = word_of_nat (Suc i)"
    by (simp add: add.commute)
  have at2: "vector_at waypoints (word_of_nat i + 1) = Inr (waypoints ! Suc i)"
    unfolding suc using i2 len by (rule vector_at_index)
  have "distance_loop waypoints (word_of_nat i) t
      = distance_loop waypoints (word_of_nat i + 1)
          (t + distance (waypoints ! i) (waypoints ! Suc i))"
    by (subst distance_loop.simps) (simp only: test at1 at2 if_True sum.case)
  then have step: "distance_loop waypoints (word_of_nat i) t
      = distance_loop waypoints (word_of_nat (Suc i))
          (t + distance (waypoints ! i) (waypoints ! Suc i))"
    unfolding suc .
  have "n = length waypoints - 1 - Suc i" using Suc.hyps(2) by simp
  moreover have "Suc i \<le> length waypoints - 1" using lt by simp
  ultimately have "distance_loop waypoints (word_of_nat (Suc i))
        (t + distance (waypoints ! i) (waypoints ! Suc i))
      = Inr (pairwise_sum waypoints (Suc i) (t + distance (waypoints ! i) (waypoints ! Suc i)))"
    by (rule Suc.hyps(1))
  also have "\<dots> = Inr (pairwise_sum waypoints i t)"
    using lt by (simp add: pairwise_sum_def upt_conv_Cons)
  finally show ?case using step by simp
qed

lemma distance_loop_total:
  assumes "waypoints \<noteq> []" and "length waypoints < 2 ^ 64"
  shows "distance_loop waypoints 0 (Fin 0) = Inr (pairwise_sum waypoints 0 (Fin 0))"
  using distance_loop_sum [OF assms, of 0 "Fin 0"] by simp

subsection \<open>The reference scenario\<close>

lemma to_double_moderate:
  assumes "1 / 1000 \<le> \<bar>r\<bar>" and "\<bar>r\<bar> \<le> 10 ^ 7"
  shows "to_double r = Fin r"
  using assms by (intro to_double_in_range moderate_in_range)

lemma sqrt_22500: "sqrt 22500 = 150"
  by (rule real_sqrt_unique) simp_all

lemma sqrt_quarter: "sqrt (1 / 4) = 1 / 2"
  by (rule real_sqrt_unique) (simp_all add: power2_eq_square)

lemma sqrt_13400_bounds: "115758 / 1000 < sqrt 13400" "sqrt 13400 < 115759 / 1000"
  by (rule real_less_rsqrt, simp add: power2_eq_square)
     (rule real_less_lsqrt, simp_all add: power2_eq_square)

lemma sqrt_33400_bounds: "182756 / 1000 < sqrt 33400" "sqrt 33400 < 182757 / 1000"
  by (rule real_less_rsqrt, simp add: power2_eq_square)
     (rule real_less_lsqrt, simp_all add: power2_eq_square)

lemma reference_length_bounds: "44851 / 100 < reference_length" "reference_length < 44852 / 100"
  using sqrt_13400_bounds sqrt_33400_bounds by (simp_all add: reference_length_def)

lemma to_double_sqrt_13400: "to_double (sqrt 13400) = Fin (sqrt 13400)"
  using sqrt_13400_bounds by (intro to_double_moderate) simp_all

lemma to_double_sqrt_33400: "to_double (sqrt 33400) = Fin (sqrt 33400)"
  using sqrt_33400_bounds by (intro to_double_moderate) simp_all

lemma reference_segment_1:
  "distance \<lparr>x = Fin 0, y = Fin 0, z = Fin 100\<rparr> \<lparr>x = Fin 100, y = Fin 100, z = Fin 150\<rparr>
     = Fin 150"
  by (simp add: distance_def to_double_moderate sqrt_22500)

lemma reference_segment_2:
  "distance \<lparr>x = Fin 100, y = Fin 100, z = Fin 150\<rparr> \<lparr>x = Fin 200, y = Fin 50, z = Fin 120\<rparr>
     = Fin (sqrt 13400)"
  by (simp add: distance_def to_double_moderate to_double_sqrt_13400)

lemma reference_segment_3:
  "distance \<lparr>x = Fin 200, y = Fin 50, z = Fin 120\<rparr> \<lparr>x = Fin 300, y = Fin 200, z = Fin 150\<rparr>
     = Fin (sqrt 33400)"
  by (simp add: distance_def to_double_moderate to_double_sqrt_33400)

lemma reference_sums:
  "Fin 0 + Fin 150 = Fin 150"
  "Fin 150 + Fin (sqrt 13400) = Fin (150 + sqrt 13400)"
  "Fin (150 + sqrt 13400) + Fin (sqrt 33400) = Fin reference_length"
  using sqrt_13400_bounds sqrt_33400_bounds
  by (simp_all add: to_double_moderate reference_length_def)

lemma reference_pairwise_sum:
  "pairwise_sum reference_waypoints 0 (Fin 0) = Fin reference_length"
proof -
  have upt3: "[0..<3] = [0, 1, 2::nat]" by (simp add: upt_rec)
  show ?thesis
    unfolding pairwise_sum_def reference_waypoints_def
    by (simp add: upt3 reference_segment_1 reference_segment_2 reference_segment_3
        reference_sums del: plus_double.simps)
qed

lemma reference_shape:
  "reference_waypoints \<noteq> []" "length reference_waypoints < 2 ^ 64"
  by (simp_all add: reference_waypoints_def)

lemma reference_distance_loop:
  "distance_loop reference_waypoints 0 (Fin 0) = Inr (Fin reference_length)"
proof -
  have "distance_loop reference_waypoints 0 (Fin 0)
      = Inr (pairwise_sum reference_waypoints 0 (Fin 0))"
    using reference_shape by (rule distance_loop_total)
  then show ?thesis by (simp only: reference_pairwise_sum)
qed

lemma reference_optimum:
  "findOptimalSpeedAndAltitude (Fin (1 / 10)) (Fin (5 / 100)) = (Fin (1 / 2), Fin 100)"
  by (simp add: findOptimalSpeedAndAltitude_def Let_def to_double_moderate sqrt_quarter)

lemma reference_energy:
  "energyConsumption (Fin (1 / 2)) (Fin 100) (Fin (1 / 10)) (Fin (5 / 100)) (Fin 10)
     = Fin (601 / 40)"
  by (simp add: energyConsumption_def power2_eq_square to_double_moderate)

lemma reference_total_energy:
  "Fin (601 / 40) * Fin reference_length = Fin (601 / 40 * reference_length)"
  using reference_length_bounds by (simp add: to_double_moderate)

lemma main_value:
  "main = Inr \<lparr>total_distance = Fin reference_length, optimal_velocity = Fin (1 / 2),
               optimal_altitude = Fin 100, total_energy = Fin (601 / 40 * reference_length)\<rparr>"
  unfolding main_def main_body_def
  by (simp only: reference_distance_loop reference_optimum reference_energy
      sum.case Let_def prod.case reference_total_energy)

text \<open>
  C1 (as amended). In the reference scenario, with waypoints (0,0,100), (100,100,150),
  (200,50,120), (300,200,150) and coefficients a = 0.1, b = 0.05, c = 10, the program
  computes the total distance \<open>150 + sqrt 13400 + sqrt 33400\<close>, the sum of the three
  Euclidean segment lengths, which lies between 448.51 and 448.52; the optimal velocity
  0.5; the optimal altitude 100; the energy per unit distance 15.025; and the total energy
  15.025 times the total distance.
\<close>

theorem main_reference_scenario:
  "main = Inr \<lparr>total_distance = Fin reference_length, optimal_velocity = Fin (1 / 2),
               optimal_altitude = Fin 100, total_energy = Fin (601 / 40 * reference_length)\<rparr>
   \<and> reference_length = 150 + sqrt 13400 + sqrt 33400
   \<and> 44851 / 100 < reference_length \<and> reference_length < 44852 / 100
   \<and> energyConsumption (Fin (1 / 2)) (Fin 100) (Fin (1 / 10)) (Fin (5 / 100)) (Fin 10)
       = Fin (601 / 40)"
  using main_value reference_length_bounds reference_energy
  by (simp only: reference_length_def simp_thms)

text \<open>
  C1 as stated fails: the total distance that \<open>main\<close> computes is not approximately
  395.21; it is more than 53 away from it.
\<close>

theorem main_distance_not_395:
  "\<not> within_tolerance 53 (total_distance (projr main)) (39521 / 100)"
  using reference_length_bounds by (simp add: main_value within_tolerance_def)

subsection \<open>The optimizer within and beyond the range\<close>

lemma in_range_sqrt:
  assumes "in_range q" and "0 < q"
  shows "in_range (sqrt q)"
proof -
  have pos: "0 < sqrt q" using assms(2) by simp
  then have abs: "\<bar>sqrt q\<bar> = sqrt q" by simp
  have q: "underflow_bound < q" "q < overflow_bound"
    using assms unfolding in_range_def by simp_all
  have sq: "sqrt q * sqrt q = q" using assms(2) by simp
  have "underflow_bound < sqrt q \<and> sqrt q < overflow_bound"
  proof (cases "1 \<le> sqrt q")
    case True
    then have "sqrt q * 1 \<le> sqrt q * sqrt q" by (intro mult_left_mono) simp_all
    then have "sqrt q \<le> q" using sq by simp
    then show ?thesis using True q underflow_bound_small by linarith
  next
    case False
    then have "sqrt q * sqrt q \<le> 1 * sqrt q" using pos by (intro mult_right_mono) simp_all
    then have "q \<le> sqrt q" using sq by simp
    then show ?thesis using False q overflow_bound_one by linarith
  qed
  then show ?thesis unfolding in_range_def abs .
qed

lemma normal_in_range: "normal_range r \<Longrightarrow> in_range r"
proof -
  have "underflow_bound < 1 / 2 ^ 1022" unfolding underflow_bound_def by simp
  then show "normal_range r \<Longrightarrow> in_range r"
    unfolding normal_range_def in_range_def by linarith
qed

text \<open>
  C2 (as amended). For all coefficients a > 0 and b >= 0 such that \<open>2 * a\<close> and
  \<open>b / (2 * a)\<close> neither overflow nor underflow (they lie in the range of the normal
  doubles, or b = 0), findOptimalSpeedAndAltitude returns the pair of the velocity
  \<open>sqrt (b / (2 * a))\<close> and the altitude 100.
\<close>

theorem optimizer_closed_form_in_range:
  assumes "0 < a" and "0 \<le> b" and "normal_range (2 * a)"
    and "b = 0 \<or> normal_range (b / (2 * a))"
  shows "findOptimalSpeedAndAltitude (Fin a) (Fin b) = (Fin (sqrt (b / (2 * a))), Fin 100)"
proof -
  have guard: "dneq (Fin a) (Fin 0)" using assms(1) by simp
  have two_a: "Fin 2 * Fin a = Fin (2 * a)"
    using assms(3) by (simp add: to_double_in_range normal_in_range)
  have nonneg: "0 \<le> b / (2 * a)" using assms(1,2) by simp
  have quot: "Fin b / Fin (2 * a) = Fin (b / (2 * a))"
    using assms(1,4) by (auto simp: to_double_in_range normal_in_range to_double_zero)
  have "to_double (sqrt (b / (2 * a))) = Fin (sqrt (b / (2 * a)))"
  proof (cases "b = 0")
    case True
    then show ?thesis by (simp add: to_double_zero)
  next
    case False
    then have "in_range (b / (2 * a))" and "0 < b / (2 * a)"
      using assms by (simp_all add: normal_in_range)
    then have "in_range (sqrt (b / (2 * a)))" by (rule in_range_sqrt)
    then show ?thesis by (rule to_double_in_range)
  qed
  then have root: "std_sqrt (Fin (b / (2 * a))) = Fin (sqrt (b / (2 * a)))"
    using nonneg by (simp add: not_less)
  show ?thesis
    unfolding findOptimalSpeedAndAltitude_def Let_def
    by (simp only: guard if_True two_a quot root)
qed

lemma moderate_normal_range:
  assumes "1 / 1000 \<le> \<bar>r\<bar>" and "\<bar>r\<bar> \<le> 10 ^ 7"
  shows "normal_range r"
proof -
  have "(1::real) / 2 ^ 1022 < 1 / 1000" by simp
  then show ?thesis
    using assms overflow_bound_large unfolding normal_range_def by linarith
qed

theorem optimizer_closed_form_in_range_witness:
  "(0::real) < 1 / 10 \<and> (0::real) \<le> 1 / 20 \<and> normal_range (2 * (1 / 10))
   \<and> normal_range ((1 / 20) / (2 * (1 / 10)))
   \<and> findOptimalSpeedAndAltitude (Fin (1 / 10)) (Fin (1 / 20)) = (Fin (1 / 2), Fin 100)"
proof -
  have r1: "normal_range (2 * (1 / 10))" and r2: "normal_range ((1 / 20) / (2 * (1 / 10)))"
    by (rule moderate_normal_range; simp)+
  have h: "(1 / 20 :: real) = 0 \<or> normal_range ((1 / 20) / (2 * (1 / 10)))" using r2 by simp
  have "findOptimalSpeedAndAltitude (Fin (1 / 10)) (Fin (1 / 20))
      = (Fin (sqrt ((1 / 20) / (2 * (1 / 10)))), Fin 100)"
    by (rule optimizer_closed_form_in_range [OF _ _ r1 h]) simp_all
  moreover have "sqrt ((1 / 20) / (2 * (1 / 10))) = 1 / 2" using sqrt_quarter by simp
  ultimately show ?thesis using r1 r2 by simp
qed

lemma overflow_quotient:
  "Fin 2 * Fin (1 / 2 ^ 540) = Fin (2 * (1 / 2 ^ 540))"
  "Fin (2 ^ 540) / Fin (2 * (1 / 2 ^ 540)) = PInf"
  "dneq (Fin (1 / 2 ^ 540)) (Fin 0)"
  by (simp_all add: to_double_def overflow_bound_def underflow_bound_def)

lemma optimizer_overflow_value:
  "findOptimalSpeedAndAltitude (Fin (1 / 2 ^ 540)) (Fin (2 ^ 540)) = (PInf, Fin 100)"
  unfolding findOptimalSpeedAndAltitude_def Let_def
  by (simp only: overflow_quotient if_True std_sqrt.simps)

text \<open>
  C2 as stated fails: with a = 2^-540 > 0 and b = 2^540 >= 0 the quotient \<open>b / (2 * a)\<close>
  is 2^1079 and overflows; the velocity returned is \<open>+inf\<close>, not the finite number
  \<open>sqrt (b / (2 * a))\<close>.
\<close>

theorem optimizer_overflow:
  "(0::real) < 1 / 2 ^ 540 \<and> (0::real) \<le> 2 ^ 540
   \<and> findOptimalSpeedAndAltitude (Fin (1 / 2 ^ 540)) (Fin (2 ^ 540)) = (PInf, Fin 100)
   \<and> findOptimalSpeedAndAltitude (Fin (1 / 2 ^ 540)) (Fin (2 ^ 540))
       \<noteq> (Fin (sqrt (2 ^ 540 / (2 * (1 / 2 ^ 540)))), Fin 100)"
proof -
  have "(0::real) < 1 / 2 ^ 540" "(0::real) \<le> 2 ^ 540" by simp_all
  moreover have "(PInf, Fin 100) \<noteq> (Fin (sqrt (2 ^ 540 / (2 * (1 / 2 ^ 540)))), Fin 100)"
    by (simp only: prod.inject double.distinct simp_thms)
  ultimately show ?thesis by (simp only: optimizer_overflow_value simp_thms)
qed

lemma optimizer_divisor_overflow:
  "findOptimalSpeedAndAltitude (Fin (2 ^ 1023)) (Fin 1) = (Fin 0, Fin 100)"
  by (simp add: findOptimalSpeedAndAltitude_def Let_def to_double_def overflow_bound_def
      underflow_bound_def)

subsection \<open>A negative quotient\<close>

lemma energy_NaN_velocity: "energyConsumption NaN h a b c = NaN"
  by (cases a) (simp_all add: energyConsumption_def)

lemma NaN_times: "NaN * d = NaN"
  by simp

lemma optimum_negative_quotient:
  assumes signs: "(a < 0 \<and> 0 < b) \<or> (0 < a \<and> b < 0)"
    and two_a: "in_range (2 * a)" and quot: "underflow_bound < \<bar>b / (2 * a)\<bar>"
  shows "findOptimalSpeedAndAltitude (Fin a) (Fin b) = (NaN, Fin 100)"
proof -
  have guard: "dneq (Fin a) (Fin 0)" using signs by auto
  have "a \<noteq> 0" using signs by auto
  have neg: "b / (2 * a) < 0" using signs by (auto simp: divide_less_0_iff)
  have prod: "Fin 2 * Fin a = Fin (2 * a)"
    using two_a by (simp add: to_double_in_range)
  have "to_double (b / (2 * a)) = NInf \<or> to_double (b / (2 * a)) = Fin (b / (2 * a))"
    using neg quot overflow_bound_pos by (auto simp: to_double_def)
  then have "std_sqrt (to_double (b / (2 * a))) = NaN"
    using neg by auto
  then have root: "std_sqrt (Fin b / Fin (2 * a)) = NaN"
    using \<open>a \<noteq> 0\<close> by simp
  show ?thesis
    unfolding findOptimalSpeedAndAltitude_def Let_def
    by (simp only: guard if_True prod root)
qed

text \<open>
  C5 (as amended). When a and b have opposite signs, \<open>2 * a\<close> neither overflows nor
  underflows, and the quotient \<open>b / (2 * a)\<close> does not underflow to zero,
  findOptimalSpeedAndAltitude returns normally, with the velocity NaN and the altitude
  100; the energy evaluated at a NaN velocity is NaN; and on every non-empty waypoint
  vector the body of \<open>main\<close> ends without an error, reporting the velocity NaN and the
  total energy NaN.
\<close>

theorem negative_quotient_propagates_NaN:
  assumes "(a < 0 \<and> 0 < b) \<or> (0 < a \<and> b < 0)"
    and "in_range (2 * a)" and "underflow_bound < \<bar>b / (2 * a)\<bar>"
    and "waypoints \<noteq> []" and "length waypoints < 2 ^ 64"
  shows "findOptimalSpeedAndAltitude (Fin a) (Fin b) = (NaN, Fin 100)
    \<and> energyConsumption NaN (Fin 100) (Fin a) (Fin b) c = NaN
    \<and> main_body (Fin a) (Fin b) c waypoints
        = Inr \<lparr>total_distance = pairwise_sum waypoints 0 (Fin 0), optimal_velocity = NaN,
               optimal_altitude = Fin 100, total_energy = NaN\<rparr>"
proof -
  have opt: "findOptimalSpeedAndAltitude (Fin a) (Fin b) = (NaN, Fin 100)"
    using assms(1,2,3) by (rule optimum_negative_quotient)
  have loop: "distance_loop waypoints 0 (Fin 0) = Inr (pairwise_sum waypoints 0 (Fin 0))"
    using assms(4,5) by (rule distance_loop_total)
  have "main_body (Fin a) (Fin b) c waypoints
        = Inr \<lparr>total_distance = pairwise_sum waypoints 0 (Fin 0), optimal_velocity = NaN,
               optimal_altitude = Fin 100, total_energy = NaN\<rparr>"
    unfolding main_body_def
    by (simp only: loop opt energy_NaN_velocity sum.case Let_def prod.case NaN_times)
  with opt show ?thesis by (simp only: energy_NaN_velocity simp_thms)
qed

theorem negative_quotient_propagates_NaN_witness:
  "(- (1 / 10) :: real) < 0 \<and> (0::real) < 1 / 20
   \<and> in_range (2 * (- (1 / 10))) \<and> underflow_bound < \<bar>(1 / 20) / (2 * (- (1 / 10)))\<bar>
   \<and> reference_waypoints \<noteq> [] \<and> length reference_waypoints < 2 ^ 64
   \<and> findOptimalSpeedAndAltitude (Fin (- (1 / 10))) (Fin (1 / 20)) = (NaN, Fin 100)
   \<and> main_body (Fin (- (1 / 10))) (Fin (1 / 20)) (Fin 10) reference_waypoints
       = Inr \<lparr>total_distance = Fin reference_length, optimal_velocity = NaN,
              optimal_altitude = Fin 100, total_energy = NaN\<rparr>"
proof -
  have h: "((- (1 / 10) :: real) < 0 \<and> (0::real) < 1 / 20)
           \<or> ((0::real) < - (1 / 10) \<and> (1 / 20 :: real) < 0)" by simp
  have n: "(- (1 / 10) :: real) < 0" "(0::real) < 1 / 20" by simp_all
  have r1: "in_range (2 * (- (1 / 10)))" by (rule moderate_in_range) simp_all
  have r2: "underflow_bound < \<bar>(1 / 20) / (2 * (- (1 / 10)))\<bar>"
    using underflow_bound_small by simp
  note r = negative_quotient_propagates_NaN [OF h r1 r2 reference_shape, of "Fin 10"]
  show ?thesis
    using n r1 r2 reference_shape r [THEN conjunct1] r [THEN conjunct2, THEN conjunct2]
    unfolding reference_pairwise_sum by blast
qed

lemma underflow_quotient:
  "Fin 2 * Fin (- (2 ^ 540)) = Fin (2 * (- (2 ^ 540)))"
  "Fin (1 / 2 ^ 540) / Fin (2 * (- (2 ^ 540))) = Fin 0"
  "dneq (Fin (- (2 ^ 540))) (Fin 0)"
  "std_sqrt (Fin 0) = Fin 0"
  by (simp_all add: to_double_def overflow_bound_def underflow_bound_def)

lemma optimizer_underflow_value:
  "findOptimalSpeedAndAltitude (Fin (- (2 ^ 540))) (Fin (1 / 2 ^ 540)) = (Fin 0, Fin 100)"
  unfolding findOptimalSpeedAndAltitude_def Let_def
  by (simp only: underflow_quotient if_True)

text \<open>
  C5 as stated fails: with a = -2^540 and b = 2^-540, of opposite signs, the quotient
  \<open>b / (2 * a)\<close> is -2^-1081 and underflows to zero; the velocity returned is the finite
  number 0, not NaN.
\<close>

theorem negative_quotient_underflow:
  "(- (2 ^ 540) :: real) < 0 \<and> (0::real) < 1 / 2 ^ 540
   \<and> findOptimalSpeedAndAltitude (Fin (- (2 ^ 540))) (Fin (1 / 2 ^ 540)) = (Fin 0, Fin 100)
   \<and> is_finite (fst (findOptimalSpeedAndAltitude (Fin (- (2 ^ 540))) (Fin (1 / 2 ^ 540))))"
proof -
  have "(- (2 ^ 540) :: real) < 0" "(0::real) < 1 / 2 ^ 540" by simp_all
  then show ?thesis by (simp only: optimizer_underflow_value fst_conv is_finite.simps simp_thms)
qed

subsection \<open>When the distance is zero\<close>

lemma nonneg_result_to_double: "0 \<le> r \<Longrightarrow> nonneg_result (to_double r)"
  using overflow_bound_pos underflow_bound_pos
  by (auto simp: nonneg_result_def to_double_def)

lemma nonneg_result_pow2:
  assumes "d \<noteq> NaN"
  shows "nonneg_result (std_pow d 2)"
  using assms by (cases d) (simp_all add: nonneg_result_to_double, simp_all add: nonneg_result_def)

lemma finite_difference: "Fin u - Fin v \<noteq> NaN"
  by (simp add: to_double_def)

lemma nonneg_result_plus:
  assumes "nonneg_result d" and "nonneg_result e"
  shows "nonneg_result (d + e) \<and> (d + e = Fin 0 \<longleftrightarrow> d = Fin 0 \<and> e = Fin 0)"
proof (cases d; cases e)
  fix u v assume de: "d = Fin u" "e = Fin v"
  then have u: "u = 0 \<or> underflow_bound < u" and v: "v = 0 \<or> underflow_bound < v"
    using assms by (simp_all add: nonneg_result_def)
  have nn: "0 \<le> u + v" using u v underflow_bound_pos by auto
  have "to_double (u + v) = Fin 0 \<longleftrightarrow> u = 0 \<and> v = 0"
    using u v underflow_bound_pos overflow_bound_pos by (auto simp: to_double_def)
  then show ?thesis using de nn by (simp add: nonneg_result_to_double)
qed (use assms in \<open>simp_all add: nonneg_result_def\<close>)

lemma sqrt_zero_iff:
  assumes "nonneg_result d"
  shows "std_sqrt d = Fin 0 \<longleftrightarrow> d = Fin 0"
proof (cases d)
  case (Fin s)
  then have s: "s = 0 \<or> underflow_bound < s" using assms by (simp add: nonneg_result_def)
  show ?thesis
  proof (cases "s = 0")
    case True
    then show ?thesis using Fin by (simp add: to_double_zero)
  next
    case False
    then have big: "underflow_bound < s" using s by simp
    then have pos: "0 < s" using underflow_bound_pos by linarith
    have "sqrt s * sqrt s = s" using pos by simp
    have "underflow_bound < sqrt s"
    proof (cases "1 \<le> sqrt s")
      case True
      then show ?thesis using underflow_bound_small by linarith
    next
      case False
      moreover have "0 < sqrt s" using pos by simp
      ultimately have "sqrt s * sqrt s \<le> 1 * sqrt s" by (intro mult_right_mono) simp_all
      then have "s \<le> sqrt s" using pos by simp
      then show ?thesis using big by linarith
    qed
    then have "to_double (sqrt s) \<noteq> Fin 0"
      using underflow_bound_pos by (auto simp: to_double_def)
    then show ?thesis using Fin False pos by simp
  qed
qed (use assms in \<open>simp_all add: nonneg_result_def\<close>)

lemma finite_waypoint_cases:
  assumes "finite_waypoint p"
  obtains a1 a2 a3 where "p = \<lparr>x = Fin a1, y = Fin a2, z = Fin a3\<rparr>"
proof -
  obtain a1 a2 a3 where "x p = Fin a1" "y p = Fin a2" "z p = Fin a3"
    using assms unfolding finite_waypoint_def
    by (cases "x p"; cases "y p"; cases "z p") simp_all
  then have "p = \<lparr>x = Fin a1, y = Fin a2, z = Fin a3\<rparr>" by (cases p) simp
  then show ?thesis by (rule that)
qed

lemma distance_zero_squares:
  assumes "finite_waypoint p" and "finite_waypoint q"
  shows "distance p q = Fin 0 \<longleftrightarrow>
         std_pow (x q - x p) 2 = Fin 0 \<and> std_pow (y q - y p) 2 = Fin 0
         \<and> std_pow (z q - z p) 2 = Fin 0"
proof -
  obtain a1 a2 a3 where p: "p = \<lparr>x = Fin a1, y = Fin a2, z = Fin a3\<rparr>"
    using assms(1) by (rule finite_waypoint_cases)
  obtain b1 b2 b3 where q: "q = \<lparr>x = Fin b1, y = Fin b2, z = Fin b3\<rparr>"
    using assms(2) by (rule finite_waypoint_cases)
  define A where "A = std_pow (x q - x p) 2"
  define B where "B = std_pow (y q - y p) 2"
  define C where "C = std_pow (z q - z p) 2"
  have nA: "nonneg_result A" and nB: "nonneg_result B" and nC: "nonneg_result C"
    unfolding A_def B_def C_def p q
    by (simp_all only: Waypoint.simps nonneg_result_pow2 [OF finite_difference])
  note ab = nonneg_result_plus [OF nA nB]
  note abc = nonneg_result_plus [OF ab [THEN conjunct1] nC]
  have "distance p q = std_sqrt (A + B + C)" by (simp add: distance_def A_def B_def C_def)
  also have "\<dots> = Fin 0 \<longleftrightarrow> A + B + C = Fin 0"
    by (rule sqrt_zero_iff) (rule abc [THEN conjunct1])
  also have "\<dots> \<longleftrightarrow> A = Fin 0 \<and> B = Fin 0 \<and> C = Fin 0"
    using ab abc by blast
  finally show ?thesis unfolding A_def B_def C_def .
qed

lemma square_of_zero_difference: "std_pow (Fin u - Fin u) 2 = Fin 0"
  by (simp add: to_double_zero)

text \<open>
  C8 (as amended). For all waypoints p and q with finite coordinates: if p and q have
  equal coordinates their distance is 0, in particular the distance of p to itself is 0;
  and the distance of p and q is 0 exactly when the square of each of the three
  coordinate differences, as computed, is 0.
\<close>

theorem distance_zero_if_equal:
  assumes "finite_waypoint p" and "finite_waypoint q"
  shows "(x p = x q \<and> y p = y q \<and> z p = z q \<longrightarrow> distance p q = Fin 0)
         \<and> distance p p = Fin 0
         \<and> (distance p q = Fin 0 \<longleftrightarrow>
              std_pow (x q - x p) 2 = Fin 0 \<and> std_pow (y q - y p) 2 = Fin 0
              \<and> std_pow (z q - z p) 2 = Fin 0)"
proof -
  obtain a1 a2 a3 where p: "p = \<lparr>x = Fin a1, y = Fin a2, z = Fin a3\<rparr>"
    using assms(1) by (rule finite_waypoint_cases)
  obtain b1 b2 b3 where q: "q = \<lparr>x = Fin b1, y = Fin b2, z = Fin b3\<rparr>"
    using assms(2) by (rule finite_waypoint_cases)
  note iff = distance_zero_squares [OF assms]
  have self: "distance p p = Fin 0"
    unfolding distance_zero_squares [OF assms(1) assms(1)]
    by (simp only: p Waypoint.simps square_of_zero_difference simp_thms)
  have "x p = x q \<and> y p = y q \<and> z p = z q \<longrightarrow> distance p q = Fin 0"
    unfolding iff by (auto simp only: p q Waypoint.simps square_of_zero_difference)
  with self iff show ?thesis by blast
qed

theorem distance_zero_if_equal_witness:
  "finite_waypoint \<lparr>x = Fin 0, y = Fin 0, z = Fin 100\<rparr>
   \<and> finite_waypoint \<lparr>x = Fin 100, y = Fin 100, z = Fin 150\<rparr>
   \<and> distance \<lparr>x = Fin 0, y = Fin 0, z = Fin 100\<rparr> \<lparr>x = Fin 0, y = Fin 0, z = Fin 100\<rparr>
       = Fin 0
   \<and> distance \<lparr>x = Fin 0, y = Fin 0, z = Fin 100\<rparr> \<lparr>x = Fin 100, y = Fin 100, z = Fin 150\<rparr>
       \<noteq> Fin 0"
proof -
  have f1: "finite_waypoint \<lparr>x = Fin 0, y = Fin 0, z = Fin 100\<rparr>"
    and f2: "finite_waypoint \<lparr>x = Fin 100, y = Fin 100, z = Fin 150\<rparr>"
    by (simp_all add: finite_waypoint_def)
  note r = distance_zero_if_equal [OF f1 f2]
  have "std_pow (Fin 100 - Fin 0) 2 \<noteq> Fin 0" by (simp add: to_double_moderate)
  then have "distance \<lparr>x = Fin 0, y = Fin 0, z = Fin 100\<rparr>
      \<lparr>x = Fin 100, y = Fin 100, z = Fin 150\<rparr> \<noteq> Fin 0"
    using r [THEN conjunct2, THEN conjunct2] by (simp only: Waypoint.simps simp_thms)
  then show ?thesis using f1 f2 r [THEN conjunct2, THEN conjunct1] by blast
qed

lemma tiny_difference:
  "std_pow (Fin (1 / 2 ^ 540) - Fin 0) 2 = Fin 0"
  "std_pow (Fin 0 - Fin 0) 2 = Fin 0"
  "Fin 0 + Fin 0 = Fin 0"
  "std_sqrt (Fin 0) = Fin 0"
  by (simp_all add: to_double_def overflow_bound_def underflow_bound_def power_divide)

text \<open>
  C8 as stated fails: the waypoints (0,0,0) and (2^-540,0,0) differ in their first
  coordinate, yet the square of the difference, 2^-1080, underflows to zero and their
  distance is 0.
\<close>

theorem distance_zero_distinct:
  "x \<lparr>x = Fin (1 / 2 ^ 540), y = Fin 0, z = Fin 0\<rparr> \<noteq> x \<lparr>x = Fin 0, y = Fin 0, z = Fin 0\<rparr>
   \<and> distance \<lparr>x = Fin 0, y = Fin 0, z = Fin 0\<rparr> \<lparr>x = Fin (1 / 2 ^ 540), y = Fin 0, z = Fin 0\<rparr>
       = Fin 0"
proof -
  have "Fin (1 / 2 ^ 540) \<noteq> Fin 0" by simp
  moreover have "distance \<lparr>x = Fin 0, y = Fin 0, z = Fin 0\<rparr>
      \<lparr>x = Fin (1 / 2 ^ 540), y = Fin 0, z = Fin 0\<rparr> = Fin 0"
    unfolding distance_def by (simp only: Waypoint.simps tiny_difference)
  ultimately show ?thesis by (simp only: Waypoint.simps simp_thms)
qed

subsection \<open>Short waypoint sequences\<close>



end
